theory Spec2Isabelle
  imports Complex_Main
begin

section \<open>Python values used by the DFM lightning module\<close>

text \<open>
  The module \<^verbatim>\<open>anomalib/models/image/dfm/lightning_model.py\<close> defines the class
  \<^verbatim>\<open>Dfm\<close>. Its methods are glue around three collaborators: the torch model
  \<^verbatim>\<open>DFMModel\<close> (constructor, \<^verbatim>\<open>get_features\<close>, \<^verbatim>\<open>fit\<close>, \<^verbatim>\<open>forward\<close>), the batch
  (\<^verbatim>\<open>batch.image\<close>, \<^verbatim>\<open>batch.update\<close>) and the base class initialiser. None of them is
  defined in this file of the repository, so each is a parameter of the method that calls
  it. An exception is a value: a call that can raise returns \<open>exn + 'r\<close>.
\<close>

datatype exn = RuntimeError string | Raised string

text \<open>
  A tensor is its shape and its elements in row-major order. The element type is left
  open: the module never looks at an element. A tensor is well formed when it has as
  many elements as its shape says.
\<close>

record 'a tensor =
  shape :: "nat list"
  data :: "'a list"

definition wf_tensor :: "'a tensor \<Rightarrow> bool" where
  "wf_tensor t = (length (data t) = prod_list (shape t))"

text \<open>
  \<^verbatim>\<open>Tensor.squeeze()\<close> without argument drops every dimension of size one and keeps the
  elements.
\<close>

definition squeeze :: "'a tensor \<Rightarrow> 'a tensor" where
  "squeeze t = t\<lparr>shape := filter (\<lambda>d. d \<noteq> 1) (shape t)\<rparr>"

text \<open>
  \<^verbatim>\<open>torch.atleast_2d\<close>: a scalar becomes a \<open>1 \<times> 1\<close> tensor, a vector of length \<open>n\<close>
  a \<open>1 \<times> n\<close> tensor, anything else is returned as it is.
\<close>

definition atleast_2d :: "'a tensor \<Rightarrow> 'a tensor" where
  "atleast_2d t =
     (case shape t of
        [] \<Rightarrow> t\<lparr>shape := [1, 1]\<rparr>
      | [n] \<Rightarrow> t\<lparr>shape := [1, n]\<rparr>
      | _ \<Rightarrow> t)"

text \<open>
  \<^verbatim>\<open>torch.cat(tensors, 0)\<close>, concatenation along dimension 0, as \<open>vstack\<close> uses it: on
  tensors of two or more dimensions. A tensor without dimensions cannot be concatenated,
  all tensors must have the same number of dimensions and agree on every dimension but
  the first; the rows of the result are the rows of the arguments, in the order of the
  list.
\<close>

fun cat0 :: "'a tensor list \<Rightarrow> exn + 'a tensor" where
  "cat0 [] = Inl (RuntimeError ''torch.cat(): expected a non-empty list of Tensors'')"
| "cat0 (t # ts) =
     (if list_ex (\<lambda>u. shape u = []) (t # ts)
      then Inl (RuntimeError ''zero-dimensional tensor cannot be concatenated'')
      else if \<not> list_all (\<lambda>u. length (shape u) = length (shape t)) ts
      then Inl (RuntimeError ''Tensors must have same number of dimensions'')
      else if \<not> list_all (\<lambda>u. tl (shape u) = tl (shape t)) ts
      then Inl (RuntimeError ''Sizes of tensors must match except in dimension 0'')
      else Inr \<lparr>shape = sum_list (map (\<lambda>u. hd (shape u)) (t # ts)) # tl (shape t),
                data = concat (map data (t # ts))\<rparr>)"

text \<open>
  \<^verbatim>\<open>torch.vstack(tensors)\<close>: refuses an empty list, then concatenates along dimension 0
  after \<^verbatim>\<open>atleast_2d\<close> on every tensor.
\<close>

definition vstack :: "'a tensor list \<Rightarrow> exn + 'a tensor" where
  "vstack tensors =
     (if tensors = [] then Inl (RuntimeError ''vstack expects a non-empty TensorList'')
      else cat0 (map atleast_2d tensors))"

section \<open>The class Dfm\<close>

text \<open>
  The instance: the three attributes \<^verbatim>\<open>__init__\<close> assigns, and \<open>base\<close> for everything
  the base classes (\<^verbatim>\<open>MemoryBankMixin\<close>, \<^verbatim>\<open>AnomalyModule\<close>) keep on the object.
\<close>

record ('m, 'a, 's) Dfm =
  model :: 'm
  embeddings :: "'a tensor list"
  score_type :: string
  base :: 's

text \<open>\<^verbatim>\<open>LearningType\<close> is an enumeration of the package; this module names \<^verbatim>\<open>ONE_CLASS\<close>.\<close>

datatype LearningType = ONE_CLASS | ZERO_SHOT | FEW_SHOT

text \<open>
  \<^verbatim>\<open>__init__\<close>: the base initialiser runs first with \<^verbatim>\<open>post_processor\<close> and
  \<^verbatim>\<open>evaluator\<close>, then the torch model is built from the keyword arguments
  \<^verbatim>\<open>backbone, pre_trained, layer, pooling_kernel_size, n_comps, score_type\<close> (given to
  \<open>DFMModel\<close> in this order), then \<^verbatim>\<open>embeddings\<close> and \<^verbatim>\<open>score_type\<close> are assigned.
  An exception of either collaborator leaves no instance. \<^verbatim>\<open>pca_level\<close> is a Python
  float that the constructor passes on without computing with it; it is a \<open>real\<close> here.
\<close>

definition Dfm_init ::
  "('pp option \<Rightarrow> 'ev + bool \<Rightarrow> exn + 's) \<Rightarrow>
   (string \<Rightarrow> bool \<Rightarrow> string \<Rightarrow> int \<Rightarrow> real \<Rightarrow> string \<Rightarrow> exn + 'm) \<Rightarrow>
   string \<Rightarrow> string \<Rightarrow> bool \<Rightarrow> int \<Rightarrow> real \<Rightarrow> string \<Rightarrow> 'pp option \<Rightarrow> 'ev + bool \<Rightarrow>
   exn + ('m, 'a, 's) Dfm" where
  "Dfm_init super_init DFMModel backbone layer pre_trained pooling_kernel_size pca_level
       score_type_arg post_processor evaluator =
     (case super_init post_processor evaluator of
        Inl e \<Rightarrow> Inl e
      | Inr b \<Rightarrow>
          (case DFMModel backbone pre_trained layer pooling_kernel_size pca_level
                  score_type_arg of
             Inl e \<Rightarrow> Inl e
           | Inr m \<Rightarrow>
               Inr \<lparr>model = m, embeddings = [], score_type = score_type_arg, base = b\<rparr>))"

text \<open>
  The defaults of the constructor's parameters; \<^verbatim>\<open>evaluator\<close> is an evaluator or a
  flag.
\<close>

definition default_backbone :: string where "default_backbone = ''resnet50''"
definition default_layer :: string where "default_layer = ''layer3''"
definition default_pre_trained :: bool where "default_pre_trained = True"
definition default_pooling_kernel_size :: int where "default_pooling_kernel_size = 4"
definition default_pca_level :: real where "default_pca_level = 97 / 100"
definition default_score_type :: string where "default_score_type = ''fre''"
definition default_post_processor :: "'pp option" where "default_post_processor = None"
definition default_evaluator :: "'ev + bool" where "default_evaluator = Inr True"

text \<open>
  \<^verbatim>\<open>configure_optimizers\<close> is a static method with no parameter and a bare
  \<^verbatim>\<open>return\<close>: its value is Python's \<^verbatim>\<open>None\<close>, here \<open>None\<close> of an option type over
  optimizers.
\<close>

definition configure_optimizers :: "'opt option" where
  "configure_optimizers = None"

text \<open>
  \<^verbatim>\<open>training_step(self, batch, *args, **kwargs)\<close>. The extra arguments are deleted
  unread. \<open>get_features\<close> is \<^verbatim>\<open>self.model.get_features\<close>, \<open>image_of\<close> reads
  \<^verbatim>\<open>batch.image\<close>. The result pairs what the call returns (\<^verbatim>\<open>None\<close>, or the exception it
  raised) with the instance after the call.

  In this first reading \<open>get_features\<close> is a function that reads the torch model and
  does not change it, as the specification has it: feature extraction is a forward pass
  through a frozen backbone. The second reading below drops both assumptions.
\<close>

definition training_step ::
  "('m \<Rightarrow> 'a tensor \<Rightarrow> exn + 'a tensor) \<Rightarrow> ('b \<Rightarrow> 'a tensor) \<Rightarrow>
   ('m, 'a, 's) Dfm \<Rightarrow> 'b \<Rightarrow> 'x \<Rightarrow> (exn + unit) \<times> ('m, 'a, 's) Dfm" where
  "training_step get_features image_of self batch extra =
     (case get_features (model self) (image_of batch) of
        Inl e \<Rightarrow> (Inl e, self)
      | Inr features \<Rightarrow>
          (Inr (), self\<lparr>embeddings := embeddings self @ [squeeze features]\<rparr>))"

text \<open>
  \<^verbatim>\<open>fit(self)\<close>. \<open>model_fit\<close> is \<^verbatim>\<open>self.model.fit\<close>: it returns \<^verbatim>\<open>None\<close> or raises,
  and in both cases leaves the torch model in some state. The first component of the
  result is what the module's logger received, in order.
\<close>

definition msg_aggregating :: string where
  "msg_aggregating = ''Aggregating the embedding extracted from the training set.''"

definition msg_fitting :: string where
  "msg_fitting = ''Fitting a PCA and a Gaussian model to dataset.''"

definition fit ::
  "('m \<Rightarrow> 'a tensor \<Rightarrow> (exn + unit) \<times> 'm) \<Rightarrow> ('m, 'a, 's) Dfm \<Rightarrow>
   string list \<times> (exn + unit) \<times> ('m, 'a, 's) Dfm" where
  "fit model_fit self =
     (case vstack (embeddings self) of
        Inl e \<Rightarrow> ([msg_aggregating], Inl e, self)
      | Inr stacked \<Rightarrow>
          (case model_fit (model self) stacked of
             (r, m') \<Rightarrow> ([msg_aggregating, msg_fitting], r, self\<lparr>model := m'\<rparr>)))"

text \<open>
  \<^verbatim>\<open>validation_step(self, batch, *args, **kwargs)\<close>. \<open>forward\<close> is the call
  \<^verbatim>\<open>self.model(batch.image)\<close>; its value is a named tuple, the list of its
  (field, value) pairs, which is also what \<^verbatim>\<open>_asdict()\<close> gives. \<open>update\<close> is
  \<^verbatim>\<open>batch.update\<close>, called with one keyword per field; what it returns is returned.

  In this first reading \<open>forward\<close> is a function that reads the torch model and does
  not change it, as the specification has it: scoring maps the image through the fitted
  transform. The second reading below drops both assumptions.
\<close>

definition validation_step ::
  "('m \<Rightarrow> 'a tensor \<Rightarrow> exn + (string \<times> 'v) list) \<Rightarrow> ('b \<Rightarrow> 'a tensor) \<Rightarrow>
   ('b \<Rightarrow> (string \<times> 'v) list \<Rightarrow> exn + 'b) \<Rightarrow>
   ('m, 'a, 's) Dfm \<Rightarrow> 'b \<Rightarrow> 'x \<Rightarrow> (exn + 'b) \<times> ('m, 'a, 's) Dfm" where
  "validation_step forward image_of update self batch extra =
     (case forward (model self) (image_of batch) of
        Inl e \<Rightarrow> (Inl e, self)
      | Inr predictions \<Rightarrow> (update batch predictions, self))"

text \<open>
  The property \<^verbatim>\<open>trainer_arguments\<close>: a dictionary literal, kept as the list of its
  items in the order they are written.
\<close>

definition trainer_arguments :: "('m, 'a, 's) Dfm \<Rightarrow> (string \<times> int) list" where
  "trainer_arguments self =
     [(''gradient_clip_val'', 0), (''max_epochs'', 1), (''num_sanity_val_steps'', 0)]"

text \<open>The property \<^verbatim>\<open>learning_type\<close>.\<close>

definition learning_type :: "('m, 'a, 's) Dfm \<Rightarrow> LearningType" where
  "learning_type self = ONE_CLASS"

section \<open>The methods with collaborators of several outcomes\<close>

text \<open>
  A method call on \<^verbatim>\<open>self.model\<close> may leave the torch model changed, and what a
  collaborator answers need not be determined by its arguments. In this second reading
  of the three lifecycle methods a collaborator gives the set of its possible outcomes:
  an answer (a value or an exception) together with the torch model it leaves, and for
  \<^verbatim>\<open>batch.update\<close> the set of its possible answers. A method gives the set of its
  outcomes, statement by statement as before; \<^verbatim>\<open>self.model\<close> is the model the
  collaborator left, also when it raised.
\<close>

definition training_step_outcomes ::
  "('m \<Rightarrow> 'a tensor \<Rightarrow> ((exn + 'a tensor) \<times> 'm) set) \<Rightarrow> ('b \<Rightarrow> 'a tensor) \<Rightarrow>
   ('m, 'a, 's) Dfm \<Rightarrow> 'b \<Rightarrow> 'x \<Rightarrow> ((exn + unit) \<times> ('m, 'a, 's) Dfm) set" where
  "training_step_outcomes get_features image_of self batch extra =
     (\<lambda>(answer, m').
        case answer of
          Inl e \<Rightarrow> (Inl e, self\<lparr>model := m'\<rparr>)
        | Inr features \<Rightarrow>
            (Inr (), self\<lparr>model := m', embeddings := embeddings self @ [squeeze features]\<rparr>))
     ` get_features (model self) (image_of batch)"

definition fit_outcomes ::
  "('m \<Rightarrow> 'a tensor \<Rightarrow> ((exn + unit) \<times> 'm) set) \<Rightarrow> ('m, 'a, 's) Dfm \<Rightarrow>
   (string list \<times> (exn + unit) \<times> ('m, 'a, 's) Dfm) set" where
  "fit_outcomes model_fit self =
     (case vstack (embeddings self) of
        Inl e \<Rightarrow> {([msg_aggregating], Inl e, self)}
      | Inr stacked \<Rightarrow>
          (\<lambda>(r, m'). ([msg_aggregating, msg_fitting], r, self\<lparr>model := m'\<rparr>))
          ` model_fit (model self) stacked)"

definition validation_step_outcomes ::
  "('m \<Rightarrow> 'a tensor \<Rightarrow> ((exn + (string \<times> 'v) list) \<times> 'm) set) \<Rightarrow> ('b \<Rightarrow> 'a tensor) \<Rightarrow>
   ('b \<Rightarrow> (string \<times> 'v) list \<Rightarrow> (exn + 'b) set) \<Rightarrow>
   ('m, 'a, 's) Dfm \<Rightarrow> 'b \<Rightarrow> 'x \<Rightarrow> ((exn + 'b) \<times> ('m, 'a, 's) Dfm) set" where
  "validation_step_outcomes forward image_of update self batch extra =
     (\<Union>(answer, m') \<in> forward (model self) (image_of batch).
        case answer of
          Inl e \<Rightarrow> {(Inl e, self\<lparr>model := m'\<rparr>)}
        | Inr predictions \<Rightarrow> (\<lambda>r. (r, self\<lparr>model := m'\<rparr>)) ` update batch predictions)"

section \<open>The batch\<close>






section \<open>A small instance of the collaborators\<close>

text \<open>
  Concrete collaborators on which the methods can be run: the torch model is the matrix
  it was fitted on (\<open>None\<close> before fitting), feature extraction flattens every image
  of the batch, fitting wants two rows, scoring wants a fitted model. A batch is its
  image and a list of further fields; updating replaces or adds fields.
\<close>

definition demo_get_features :: "nat tensor option \<Rightarrow> nat tensor \<Rightarrow> exn + nat tensor" where
  "demo_get_features m x =
     (case shape x of
        [] \<Rightarrow> Inl (Raised ''image without a batch dimension'')
      | b # rest \<Rightarrow> Inr \<lparr>shape = [b, prod_list rest], data = data x\<rparr>)"

definition demo_model_fit ::
  "nat tensor option \<Rightarrow> nat tensor \<Rightarrow> (exn + unit) \<times> nat tensor option" where
  "demo_model_fit m t =
     (if hd (shape t) < 2 then (Inl (Raised ''fewer than two samples''), m)
      else (Inr (), Some t))"



definition demo_super_init :: "unit option \<Rightarrow> unit + bool \<Rightarrow> exn + bool" where
  "demo_super_init pp ev = Inr (case ev of Inl _ \<Rightarrow> True | Inr flag \<Rightarrow> flag)"

definition demo_DFMModel ::
  "string \<Rightarrow> bool \<Rightarrow> string \<Rightarrow> int \<Rightarrow> real \<Rightarrow> string \<Rightarrow>
   exn + string \<times> bool \<times> string \<times> int \<times> real \<times> string" where
  "demo_DFMModel bb pt ly pk nc st =
     (if pk < 1 then Inl (Raised ''pooling kernel size must be positive'')
      else Inr (bb, pt, ly, pk, nc, st))"

definition demo_rows :: "nat tensor" where
  "demo_rows = \<lparr>shape = [2, 3], data = [1, 2, 3, 4, 5, 6]\<rparr>"

definition demo_image :: "nat tensor" where
  "demo_image = \<lparr>shape = [1, 3, 1, 1], data = [7, 8, 9]\<rparr>"

definition demo_self :: "(nat tensor option, nat, bool) Dfm" where
  "demo_self = \<lparr>model = None, embeddings = [demo_rows], score_type = ''fre'', base = True\<rparr>"


definition demo_empty :: "(nat tensor option, nat, bool) Dfm" where
  "demo_empty = \<lparr>model = None, embeddings = [], score_type = ''fre'', base = True\<rparr>"


definition demo_batch :: "nat tensor \<times> (string \<times> nat tensor) list" where
  "demo_batch = (demo_image, [(''gt_label'', \<lparr>shape = [1], data = [0]\<rparr>)])"

definition demo_scalar_batch :: "nat tensor \<times> (string \<times> nat tensor) list" where
  "demo_scalar_batch = (\<lparr>shape = [], data = [7]\<rparr>, [])"

text \<open>
  The same collaborators as sets of outcomes, a feature extractor that counts its calls in
  the torch model, one that may run out of memory, and a store of two batches.
\<close>

definition demo_get_features_outcomes ::
  "nat tensor option \<Rightarrow> nat tensor \<Rightarrow> ((exn + nat tensor) \<times> nat tensor option) set" where
  "demo_get_features_outcomes m x = {(demo_get_features m x, m)}"




definition demo_counting_get_features ::
  "nat \<Rightarrow> nat tensor \<Rightarrow> ((exn + nat tensor) \<times> nat) set" where
  "demo_counting_get_features calls x = {(demo_get_features None x, Suc calls)}"

definition demo_flaky_get_features ::
  "nat tensor option \<Rightarrow> nat tensor \<Rightarrow> ((exn + nat tensor) \<times> nat tensor option) set" where
  "demo_flaky_get_features m x =
     {(demo_get_features m x, m), (Inl (Raised ''out of memory''), m)}"


definition demo_counted :: "(nat, nat, bool) Dfm" where
  "demo_counted = \<lparr>model = 0, embeddings = [demo_rows], score_type = ''fre'', base = True\<rparr>"


section \<open>Stacking\<close>

lemma data_atleast_2d: "data (atleast_2d t) = data t"
  by (simp add: atleast_2d_def split: list.splits)

lemma cat0_Inr_data: "cat0 ts = Inr t \<Longrightarrow> data t = concat (map data ts)"
  by (cases ts) (auto split: if_splits)

lemma cat0_Inr_shape:
  "cat0 ts = Inr t \<Longrightarrow> shape t = sum_list (map (\<lambda>u. hd (shape u)) ts) # tl (shape (hd ts))"
  by (cases ts) (auto split: if_splits)

lemma vstack_Nil: "vstack [] = Inl (RuntimeError ''vstack expects a non-empty TensorList'')"
  by (simp add: vstack_def)

lemma vstack_Inr_nonempty: "vstack ts = Inr t \<Longrightarrow> ts \<noteq> []"
  by (auto simp: vstack_def)

lemma vstack_Inr_data: "vstack ts = Inr t \<Longrightarrow> data t = concat (map data ts)"
  by (auto simp: vstack_def comp_def data_atleast_2d dest!: cat0_Inr_data split: if_splits)

lemma vstack_Inr_shape:
  "vstack ts = Inr t \<Longrightarrow>
     shape t =
       sum_list (map (\<lambda>u. hd (shape (atleast_2d u))) ts) # tl (shape (atleast_2d (hd ts)))"
  by (auto simp: vstack_def comp_def hd_map dest!: cat0_Inr_shape split: if_splits)

text \<open>Squeezing and stacking keep tensors well formed.\<close>

lemma wf_squeeze: "wf_tensor t \<Longrightarrow> wf_tensor (squeeze t)"
proof -
  have "prod_list (filter (\<lambda>d. d \<noteq> 1) ds) = prod_list ds" for ds :: "nat list"
    by (induction ds) auto
  then show "wf_tensor t \<Longrightarrow> wf_tensor (squeeze t)"
    by (simp add: wf_tensor_def squeeze_def)
qed

lemma wf_atleast_2d: "wf_tensor t \<Longrightarrow> wf_tensor (atleast_2d t)"
  by (auto simp: wf_tensor_def atleast_2d_def split: list.splits)

lemma length_concat_rows:
  "list_all wf_tensor ts \<Longrightarrow> list_all (\<lambda>u. shape u \<noteq> []) ts \<Longrightarrow>
   list_all (\<lambda>u. tl (shape u) = r) ts \<Longrightarrow>
   length (concat (map data ts)) = sum_list (map (\<lambda>u. hd (shape u)) ts) * prod_list r"
proof (induction ts)
  case Nil
  then show ?case by simp
next
  case (Cons u us)
  from Cons.prems have "shape u = hd (shape u) # r"
    by (cases "shape u") auto
  then have "prod_list (shape u) = hd (shape u) * prod_list r"
    by (metis prod_list.Cons)
  with Cons show ?case
    by (simp add: wf_tensor_def add_mult_distrib)
qed

lemma wf_cat0: "list_all wf_tensor ts \<Longrightarrow> cat0 ts = Inr t \<Longrightarrow> wf_tensor t"
proof (cases ts)
  case Nil
  assume "cat0 ts = Inr t"
  with Nil show ?thesis by simp
next
  case (Cons u us)
  assume wf: "list_all wf_tensor ts" and c: "cat0 ts = Inr t"
  from c Cons have ne: "list_all (\<lambda>v. shape v \<noteq> []) ts"
    and tls: "list_all (\<lambda>v. tl (shape v) = tl (shape u)) ts"
    and t: "t = \<lparr>shape = sum_list (map (\<lambda>v. hd (shape v)) ts) # tl (shape u),
                 data = concat (map data ts)\<rparr>"
    by (auto simp: list_all_iff list_ex_iff split: if_splits)
  from length_concat_rows [OF wf ne tls] t show ?thesis
    by (simp add: wf_tensor_def)
qed

lemma wf_vstack: "list_all wf_tensor ts \<Longrightarrow> vstack ts = Inr t \<Longrightarrow> wf_tensor t"
proof -
  assume wf: "list_all wf_tensor ts" and v: "vstack ts = Inr t"
  from wf have "list_all wf_tensor (map atleast_2d ts)"
    by (simp add: list_all_iff wf_atleast_2d)
  moreover from v have "cat0 (map atleast_2d ts) = Inr t"
    by (simp add: vstack_def split: if_splits)
  ultimately show ?thesis by (rule wf_cat0)
qed

section \<open>Outcomes\<close>

text \<open>
  With collaborators that are functions and leave the torch model as it is, each method
  has the one outcome that its first reading computes.
\<close>

lemma training_step_outcomes_of_function:
  "training_step_outcomes (\<lambda>m x. {(get_features m x, m)}) image_of self batch extra =
     {training_step get_features image_of self batch extra}"
  by (simp add: training_step_outcomes_def training_step_def split: sum.splits)

lemma fit_outcomes_of_function:
  "fit_outcomes (\<lambda>m t. {model_fit m t}) self = {fit model_fit self}"
  by (simp add: fit_outcomes_def fit_def split: sum.splits prod.splits)

lemma validation_step_outcomes_of_function:
  "validation_step_outcomes (\<lambda>m x. {(forward m x, m)}) image_of (\<lambda>b kw. {update b kw})
       self batch extra =
     {validation_step forward image_of update self batch extra}"
  by (simp add: validation_step_outcomes_def validation_step_def split: sum.splits)






text \<open>A collaborator with two outcomes gives the method two.\<close>

lemma flaky_collaborator_two_outcomes:
  "training_step_outcomes demo_flaky_get_features fst demo_self demo_batch () =
     {(Inr (), demo_self\<lparr>embeddings := [demo_rows, \<lparr>shape = [3], data = [7, 8, 9]\<rparr>]\<rparr>),
      (Inl (Raised ''out of memory''), demo_self)}"
  by (simp add: training_step_outcomes_def demo_flaky_get_features_def demo_get_features_def
      demo_batch_def demo_image_def demo_self_def squeeze_def)

section \<open>Attributes of a batch\<close>





section \<open>fit\<close>

text \<open>
  C1. \<open>fit\<close> does two things to the collected embeddings, in this order: it stacks
  them with \<open>vstack\<close>, and it hands the stacked tensor to \<open>model_fit\<close>, whose outcome
  is the outcome of \<open>fit\<close>. The stacked tensor holds the elements of the embeddings in
  the order of the list, its rows are their rows (it is well formed when they are), and
  the list itself is left as it was; the model of the instance becomes what
  \<open>model_fit\<close> left. An embedding appended by \<open>training_step\<close> comes last in the
  stacked tensor of the next \<open>fit\<close>. The logger receives the two messages of the
  method.
\<close>

theorem fit_stacks_then_fits:
  "(vstack (embeddings self) = Inr stacked \<longrightarrow>
      fit model_fit self =
        ([msg_aggregating, msg_fitting], fst (model_fit (model self) stacked),
         self\<lparr>model := snd (model_fit (model self) stacked)\<rparr>) \<and>
      data stacked = concat (map data (embeddings self)) \<and>
      shape stacked =
        sum_list (map (\<lambda>u. hd (shape (atleast_2d u))) (embeddings self)) #
        tl (shape (atleast_2d (hd (embeddings self)))) \<and>
      (list_all wf_tensor (embeddings self) \<longrightarrow> wf_tensor stacked)) \<and>
   (training_step get_features image_of self batch extra = (Inr (), self') \<and>
    vstack (embeddings self') = Inr stacked' \<longrightarrow>
      (\<exists>e. embeddings self' = embeddings self @ [e] \<and>
           data stacked' = concat (map data (embeddings self)) @ data e \<and>
           fit model_fit self' =
             ([msg_aggregating, msg_fitting], fst (model_fit (model self) stacked'),
              self'\<lparr>model := snd (model_fit (model self) stacked')\<rparr>)))"
proof (intro conjI impI)
  assume v: "vstack (embeddings self) = Inr stacked"
  show "fit model_fit self =
        ([msg_aggregating, msg_fitting], fst (model_fit (model self) stacked),
         self\<lparr>model := snd (model_fit (model self) stacked)\<rparr>)"
    using v by (simp add: fit_def split: prod.splits)
  show "data stacked = concat (map data (embeddings self))"
    using v by (rule vstack_Inr_data)
  show "shape stacked =
        sum_list (map (\<lambda>u. hd (shape (atleast_2d u))) (embeddings self)) #
        tl (shape (atleast_2d (hd (embeddings self))))"
    using v by (rule vstack_Inr_shape)
next
  assume "vstack (embeddings self) = Inr stacked" and "list_all wf_tensor (embeddings self)"
  then show "wf_tensor stacked"
    by (intro wf_vstack)
next
  assume a: "training_step get_features image_of self batch extra = (Inr (), self') \<and>
    vstack (embeddings self') = Inr stacked'"
  then obtain f where f: "get_features (model self) (image_of batch) = Inr f"
    and s': "self' = self\<lparr>embeddings := embeddings self @ [squeeze f]\<rparr>"
    by (auto simp: training_step_def split: sum.splits)
  from a have v: "vstack (embeddings self') = Inr stacked'" by simp
  have d: "data stacked' = concat (map data (embeddings self)) @ data (squeeze f)"
    using vstack_Inr_data [OF v] s' by simp
  have m: "model self' = model self" using s' by simp
  have "fit model_fit self' =
             ([msg_aggregating, msg_fitting], fst (model_fit (model self) stacked'),
              self'\<lparr>model := snd (model_fit (model self) stacked')\<rparr>)"
    using v m by (simp add: fit_def split: prod.splits)
  with d s' show "\<exists>e. embeddings self' = embeddings self @ [e] \<and>
           data stacked' = concat (map data (embeddings self)) @ data e \<and>
           fit model_fit self' =
             ([msg_aggregating, msg_fitting], fst (model_fit (model self) stacked'),
              self'\<lparr>model := snd (model_fit (model self) stacked')\<rparr>)"
    by (intro exI [of _ "squeeze f"]) simp
qed

text \<open>
  The theorem on one stored matrix of two rows, then with a third row from a training
  step.
\<close>

theorem fit_stacks_then_fits_witness:
  "vstack (embeddings demo_self) = Inr demo_rows \<and>
   list_all wf_tensor (embeddings demo_self) \<and>
   wf_tensor demo_rows \<and>
   fit demo_model_fit demo_self =
     ([msg_aggregating, msg_fitting], Inr (), demo_self\<lparr>model := Some demo_rows\<rparr>) \<and>
   training_step demo_get_features fst demo_self demo_batch () =
     (Inr (), demo_self\<lparr>embeddings := [demo_rows, \<lparr>shape = [3], data = [7, 8, 9]\<rparr>]\<rparr>) \<and>
   vstack [demo_rows, \<lparr>shape = [3], data = [7, 8, 9]\<rparr>] =
     Inr \<lparr>shape = [3, 3], data = [1, 2, 3, 4, 5, 6, 7, 8, 9]\<rparr> \<and>
   fit demo_model_fit (demo_self\<lparr>embeddings := [demo_rows, \<lparr>shape = [3], data = [7, 8, 9]\<rparr>]\<rparr>) =
     ([msg_aggregating, msg_fitting], Inr (),
      \<lparr>model = Some \<lparr>shape = [3, 3], data = [1, 2, 3, 4, 5, 6, 7, 8, 9]\<rparr>,
       embeddings = [demo_rows, \<lparr>shape = [3], data = [7, 8, 9]\<rparr>],
       score_type = ''fre'', base = True\<rparr>)"
proof -
  have h1: "vstack (embeddings demo_self) = Inr demo_rows"
    by (simp add: demo_self_def demo_rows_def vstack_def atleast_2d_def)
  have h2: "training_step demo_get_features fst demo_self demo_batch () =
     (Inr (), demo_self\<lparr>embeddings := [demo_rows, \<lparr>shape = [3], data = [7, 8, 9]\<rparr>]\<rparr>)"
    by (simp add: training_step_def demo_get_features_def demo_image_def demo_batch_def
        demo_self_def squeeze_def)
  have h3: "vstack (embeddings (demo_self\<lparr>embeddings := [demo_rows, \<lparr>shape = [3], data = [7, 8, 9]\<rparr>]\<rparr>)) =
     Inr \<lparr>shape = [3, 3], data = [1, 2, 3, 4, 5, 6, 7, 8, 9]\<rparr>"
    by (simp add: demo_rows_def vstack_def atleast_2d_def)
  have m1: "demo_model_fit (model demo_self) demo_rows = (Inr (), Some demo_rows)"
    by (simp add: demo_model_fit_def demo_rows_def)
  note t = fit_stacks_then_fits [where self = demo_self and stacked = demo_rows
      and model_fit = demo_model_fit and get_features = demo_get_features and image_of = fst
      and batch = demo_batch and extra = "()"
      and self' = "demo_self\<lparr>embeddings := [demo_rows, \<lparr>shape = [3], data = [7, 8, 9]\<rparr>]\<rparr>"
      and stacked' = "\<lparr>shape = [3, 3], data = [1, 2, 3, 4, 5, 6, 7, 8, 9]\<rparr>"]
  have a: "fit demo_model_fit demo_self =
     ([msg_aggregating, msg_fitting], Inr (), demo_self\<lparr>model := Some demo_rows\<rparr>)"
    using t [THEN conjunct1, THEN mp, OF h1, THEN conjunct1] by (simp only: m1 fst_conv snd_conv)
  obtain e where "fit demo_model_fit (demo_self\<lparr>embeddings := [demo_rows, \<lparr>shape = [3], data = [7, 8, 9]\<rparr>]\<rparr>) =
     ([msg_aggregating, msg_fitting],
      fst (demo_model_fit (model demo_self) \<lparr>shape = [3, 3], data = [1, 2, 3, 4, 5, 6, 7, 8, 9]\<rparr>),
      demo_self\<lparr>embeddings := [demo_rows, \<lparr>shape = [3], data = [7, 8, 9]\<rparr>],
        model := snd (demo_model_fit (model demo_self) \<lparr>shape = [3, 3], data = [1, 2, 3, 4, 5, 6, 7, 8, 9]\<rparr>)\<rparr>)"
    using t [THEN conjunct2, THEN mp, OF conjI [OF h2 h3]] by blast
  then have b: "fit demo_model_fit (demo_self\<lparr>embeddings := [demo_rows, \<lparr>shape = [3], data = [7, 8, 9]\<rparr>]\<rparr>) =
     ([msg_aggregating, msg_fitting], Inr (),
      \<lparr>model = Some \<lparr>shape = [3, 3], data = [1, 2, 3, 4, 5, 6, 7, 8, 9]\<rparr>,
       embeddings = [demo_rows, \<lparr>shape = [3], data = [7, 8, 9]\<rparr>],
       score_type = ''fre'', base = True\<rparr>)"
    by (simp add: demo_model_fit_def demo_self_def)
  have h4: "list_all wf_tensor (embeddings demo_self)"
    by (simp add: demo_self_def demo_rows_def wf_tensor_def)
  have c: "wf_tensor demo_rows"
    using t [THEN conjunct1, THEN mp, OF h1, THEN conjunct2, THEN conjunct2, THEN conjunct2,
        THEN mp, OF h4] .
  from h1 h4 c a h2 h3 b show ?thesis by simp
qed

section \<open>training_step\<close>

text \<open>
  C2. For every batch, \<open>training_step\<close> obtains the embedding from the model's
  \<open>get_features\<close> on the batch's image, squeezed, and appends it as one new last
  element of the embeddings: the list is one longer, its last tensor has the elements
  of the features and their shape without the dimensions of size one. The model is the
  same afterwards. When \<open>get_features\<close> raises, the exception is the outcome and the
  instance is as before.
\<close>

theorem training_step_delegates:
  "(get_features (model self) (image_of batch) = Inr features \<longrightarrow>
      training_step get_features image_of self batch extra =
        (Inr (), self\<lparr>embeddings := embeddings self @ [squeeze features]\<rparr>) \<and>
      length (embeddings (snd (training_step get_features image_of self batch extra))) =
        Suc (length (embeddings self)) \<and>
      data (last (embeddings (snd (training_step get_features image_of self batch extra)))) =
        data features \<and>
      shape (last (embeddings (snd (training_step get_features image_of self batch extra)))) =
        filter (\<lambda>d. d \<noteq> 1) (shape features)) \<and>
   (get_features (model self) (image_of batch) = Inl e \<longrightarrow>
      training_step get_features image_of self batch extra = (Inl e, self)) \<and>
   model (snd (training_step get_features image_of self batch extra)) = model self"
  by (simp add: training_step_def squeeze_def split: sum.splits)

text \<open>
  The theorem on a batch of one image, and on an image the feature extractor refuses.
\<close>

theorem training_step_delegates_witness:
  "demo_get_features (model demo_self) (fst demo_batch) =
     Inr \<lparr>shape = [1, 3], data = [7, 8, 9]\<rparr> \<and>
   training_step demo_get_features fst demo_self demo_batch () =
     (Inr (), demo_self\<lparr>embeddings := [demo_rows, \<lparr>shape = [3], data = [7, 8, 9]\<rparr>]\<rparr>) \<and>
   demo_get_features (model demo_self) (fst demo_scalar_batch) =
     Inl (Raised ''image without a batch dimension'') \<and>
   training_step demo_get_features fst demo_self demo_scalar_batch () =
     (Inl (Raised ''image without a batch dimension''), demo_self)"
proof -
  have h1: "demo_get_features (model demo_self) (fst demo_batch) =
     Inr \<lparr>shape = [1, 3], data = [7, 8, 9]\<rparr>"
    by (simp add: demo_get_features_def demo_image_def demo_batch_def)
  have h2: "demo_get_features (model demo_self) (fst demo_scalar_batch) =
     Inl (Raised ''image without a batch dimension'')"
    by (simp add: demo_get_features_def demo_scalar_batch_def)
  have a: "training_step demo_get_features fst demo_self demo_batch () =
     (Inr (), demo_self\<lparr>embeddings := [demo_rows, \<lparr>shape = [3], data = [7, 8, 9]\<rparr>]\<rparr>)"
    using training_step_delegates [where get_features = demo_get_features and image_of = fst
        and self = demo_self and batch = demo_batch and extra = "()"
        and features = "\<lparr>shape = [1, 3], data = [7, 8, 9]\<rparr>",
        THEN conjunct1, THEN mp, OF h1, THEN conjunct1]
    by (simp add: squeeze_def demo_self_def)
  have b: "training_step demo_get_features fst demo_self demo_scalar_batch () =
     (Inl (Raised ''image without a batch dimension''), demo_self)"
    using training_step_delegates [where get_features = demo_get_features and image_of = fst
        and self = demo_self and batch = demo_scalar_batch and extra = "()"
        and e = "Raised ''image without a batch dimension''",
        THEN conjunct2, THEN conjunct1, THEN mp, OF h2] .
  from h1 a h2 b show ?thesis by simp
qed

text \<open>
  C9. \<open>training_step\<close> returns \<^verbatim>\<open>None\<close> and its only effect of its own on the
  instance is one tensor appended to the embeddings. Whenever feature extraction
  returns, the call returns \<^verbatim>\<open>None\<close> with the squeezed features appended; whenever it
  raises, the call raises the same exception and appends nothing. Every outcome of the
  call is one of these two, the score type and the state of the base classes are as
  before, and the torch model is the one feature extraction left: it is unchanged
  whenever feature extraction leaves it unchanged, as a forward pass through a frozen
  backbone does.
\<close>

theorem training_step_frame:
  "((Inr features, m') \<in> get_features (model self) (image_of batch) \<longrightarrow>
      (Inr (), self\<lparr>model := m', embeddings := embeddings self @ [squeeze features]\<rparr>)
        \<in> training_step_outcomes get_features image_of self batch extra) \<and>
   ((Inl e, m') \<in> get_features (model self) (image_of batch) \<longrightarrow>
      (Inl e, self\<lparr>model := m'\<rparr>)
        \<in> training_step_outcomes get_features image_of self batch extra) \<and>
   ((r, self') \<in> training_step_outcomes get_features image_of self batch extra \<longrightarrow>
      score_type self' = score_type self \<and> base self' = base self \<and>
      (r = Inr () \<and>
         (\<exists>features. (Inr features, model self') \<in> get_features (model self) (image_of batch) \<and>
            embeddings self' = embeddings self @ [squeeze features]) \<or>
       (\<exists>e. r = Inl e \<and> (Inl e, model self') \<in> get_features (model self) (image_of batch)) \<and>
         embeddings self' = embeddings self)) \<and>
   ((\<forall>answer m''. (answer, m'') \<in> get_features (model self) (image_of batch) \<longrightarrow>
        m'' = model self) \<and>
    (r, self') \<in> training_step_outcomes get_features image_of self batch extra \<longrightarrow>
      model self' = model self) \<and>
   (pure_get_features (model self) (image_of batch) = Inr features \<longrightarrow>
      training_step pure_get_features image_of self batch extra =
        (Inr (), self\<lparr>embeddings := embeddings self @ [squeeze features]\<rparr>))"
proof (intro conjI impI)
  assume "(Inr features, m') \<in> get_features (model self) (image_of batch)"
  then show "(Inr (), self\<lparr>model := m', embeddings := embeddings self @ [squeeze features]\<rparr>)
        \<in> training_step_outcomes get_features image_of self batch extra"
    by (force simp: training_step_outcomes_def)
next
  assume "(Inl e, m') \<in> get_features (model self) (image_of batch)"
  then show "(Inl e, self\<lparr>model := m'\<rparr>)
        \<in> training_step_outcomes get_features image_of self batch extra"
    by (force simp: training_step_outcomes_def)
next
  assume a: "(r, self') \<in> training_step_outcomes get_features image_of self batch extra"
  then obtain answer m'' where
    g: "(answer, m'') \<in> get_features (model self) (image_of batch)" and
    o: "(r, self') = (case answer of
          Inl e \<Rightarrow> (Inl e, self\<lparr>model := m''\<rparr>)
        | Inr features \<Rightarrow>
            (Inr (), self\<lparr>model := m'', embeddings := embeddings self @ [squeeze features]\<rparr>))"
    by (auto simp: training_step_outcomes_def)
  from o show "score_type self' = score_type self"
    by (cases answer) auto
  from o show "base self' = base self"
    by (cases answer) auto
  from g o show "r = Inr () \<and>
         (\<exists>features. (Inr features, model self') \<in> get_features (model self) (image_of batch) \<and>
            embeddings self' = embeddings self @ [squeeze features]) \<or>
       (\<exists>e. r = Inl e \<and> (Inl e, model self') \<in> get_features (model self) (image_of batch)) \<and>
         embeddings self' = embeddings self"
    by (cases answer) auto
next
  assume "(\<forall>answer m''. (answer, m'') \<in> get_features (model self) (image_of batch) \<longrightarrow>
        m'' = model self) \<and>
    (r, self') \<in> training_step_outcomes get_features image_of self batch extra"
  then show "model self' = model self"
    by (auto simp: training_step_outcomes_def split: sum.splits)
next
  assume "pure_get_features (model self) (image_of batch) = Inr features"
  then show "training_step pure_get_features image_of self batch extra =
        (Inr (), self\<lparr>embeddings := embeddings self @ [squeeze features]\<rparr>)"
    by (simp add: training_step_def)
qed

text \<open>
  The theorem with a feature extractor that counts its calls in the torch model, on a
  batch it accepts and on one it refuses, and with a feature extractor that leaves the
  torch model as it is.
\<close>

theorem training_step_frame_witness:
  "(Inr \<lparr>shape = [1, 3], data = [7, 8, 9]\<rparr>, 1)
     \<in> demo_counting_get_features (model demo_counted) (fst demo_batch) \<and>
   (Inr (), demo_counted\<lparr>model := 1,
              embeddings := [demo_rows, \<lparr>shape = [3], data = [7, 8, 9]\<rparr>]\<rparr>)
     \<in> training_step_outcomes demo_counting_get_features fst demo_counted demo_batch () \<and>
   score_type (demo_counted\<lparr>model := 1,
              embeddings := [demo_rows, \<lparr>shape = [3], data = [7, 8, 9]\<rparr>]\<rparr>) = ''fre'' \<and>
   (Inl (Raised ''image without a batch dimension''), 1)
     \<in> demo_counting_get_features (model demo_counted) (fst demo_scalar_batch) \<and>
   (Inl (Raised ''image without a batch dimension''), demo_counted\<lparr>model := 1\<rparr>)
     \<in> training_step_outcomes demo_counting_get_features fst demo_counted demo_scalar_batch () \<and>
   (Inr (), demo_self\<lparr>embeddings := [demo_rows, \<lparr>shape = [3], data = [7, 8, 9]\<rparr>]\<rparr>)
     \<in> training_step_outcomes demo_get_features_outcomes fst demo_self demo_batch () \<and>
   model (demo_self\<lparr>embeddings := [demo_rows, \<lparr>shape = [3], data = [7, 8, 9]\<rparr>]\<rparr>) =
     model demo_self \<and>
   training_step demo_get_features fst demo_self demo_batch () =
     (Inr (), demo_self\<lparr>embeddings := [demo_rows, \<lparr>shape = [3], data = [7, 8, 9]\<rparr>]\<rparr>)"
proof -
  let ?f = "\<lparr>shape = [1, 3], data = [7, 8, 9::nat]\<rparr>"
  let ?e = "\<lparr>shape = [3], data = [7, 8, 9::nat]\<rparr>"
  have h1: "(Inr ?f, 1) \<in> demo_counting_get_features (model demo_counted) (fst demo_batch)"
    by (simp add: demo_counting_get_features_def demo_get_features_def demo_counted_def
        demo_batch_def demo_image_def)
  have h2: "(Inl (Raised ''image without a batch dimension''), 1)
     \<in> demo_counting_get_features (model demo_counted) (fst demo_scalar_batch)"
    by (simp add: demo_counting_get_features_def demo_get_features_def demo_counted_def
        demo_scalar_batch_def)
  have h3: "(Inr ?f, model demo_self)
     \<in> demo_get_features_outcomes (model demo_self) (fst demo_batch)"
    by (simp add: demo_get_features_outcomes_def demo_get_features_def demo_batch_def
        demo_image_def)
  have h4: "\<forall>answer m''. (answer, m'')
       \<in> demo_get_features_outcomes (model demo_self) (fst demo_batch) \<longrightarrow>
     m'' = model demo_self"
    by (simp add: demo_get_features_outcomes_def)
  have h5: "demo_get_features (model demo_self) (fst demo_batch) = Inr ?f"
    by (simp add: demo_get_features_def demo_batch_def demo_image_def)
  have a: "(Inr (), demo_counted\<lparr>model := 1, embeddings := [demo_rows, ?e]\<rparr>)
     \<in> training_step_outcomes demo_counting_get_features fst demo_counted demo_batch ()"
    using training_step_frame [where get_features = demo_counting_get_features
        and image_of = fst and self = demo_counted and batch = demo_batch and extra = "()"
        and features = ?f and m' = 1, THEN conjunct1, THEN mp, OF h1]
    by (simp add: squeeze_def demo_counted_def)
  have b: "score_type (demo_counted\<lparr>model := 1, embeddings := [demo_rows, ?e]\<rparr>) = ''fre''"
    using training_step_frame [where get_features = demo_counting_get_features
        and image_of = fst and self = demo_counted and batch = demo_batch and extra = "()"
        and r = "Inr ()" and self' = "demo_counted\<lparr>model := 1, embeddings := [demo_rows, ?e]\<rparr>",
        THEN conjunct2, THEN conjunct2, THEN conjunct1, THEN mp, OF a]
    by (simp add: demo_counted_def)
  have c: "(Inl (Raised ''image without a batch dimension''), demo_counted\<lparr>model := 1\<rparr>)
     \<in> training_step_outcomes demo_counting_get_features fst demo_counted demo_scalar_batch ()"
    using training_step_frame [where get_features = demo_counting_get_features
        and image_of = fst and self = demo_counted and batch = demo_scalar_batch
        and extra = "()" and e = "Raised ''image without a batch dimension''" and m' = 1,
        THEN conjunct2, THEN conjunct1, THEN mp, OF h2] .
  have d: "(Inr (), demo_self\<lparr>embeddings := [demo_rows, ?e]\<rparr>)
     \<in> training_step_outcomes demo_get_features_outcomes fst demo_self demo_batch ()"
    using training_step_frame [where get_features = demo_get_features_outcomes
        and image_of = fst and self = demo_self and batch = demo_batch and extra = "()"
        and features = ?f and m' = "model demo_self", THEN conjunct1, THEN mp, OF h3]
    by (simp add: squeeze_def demo_self_def)
  have m: "model (demo_self\<lparr>embeddings := [demo_rows, ?e]\<rparr>) = model demo_self"
    using training_step_frame [where get_features = demo_get_features_outcomes
        and image_of = fst and self = demo_self and batch = demo_batch and extra = "()"
        and r = "Inr ()" and self' = "demo_self\<lparr>embeddings := [demo_rows, ?e]\<rparr>",
        THEN conjunct2, THEN conjunct2, THEN conjunct2, THEN conjunct1, THEN mp,
        OF conjI [OF h4 d]] .
  have p: "training_step demo_get_features fst demo_self demo_batch () =
     (Inr (), demo_self\<lparr>embeddings := [demo_rows, ?e]\<rparr>)"
    using training_step_frame [where pure_get_features = demo_get_features
        and image_of = fst and self = demo_self and batch = demo_batch and extra = "()"
        and features = ?f,
        THEN conjunct2, THEN conjunct2, THEN conjunct2, THEN conjunct2, THEN mp, OF h5]
    by (simp add: squeeze_def demo_self_def)
  from h1 a b h2 c d m p show ?thesis by simp
qed

section \<open>fit without embeddings\<close>

text \<open>
  C8. With no embedding collected, \<open>fit\<close> raises the error of the stacking step and
  the instance, its model included, is as before, whatever \<open>model_fit\<close> is: it is
  never reached. This is the case right after construction. A \<open>fit\<close> that returns
  normally had at least one embedding.
\<close>

theorem fit_empty_raises:
  "(embeddings self = [] \<longrightarrow>
      fit model_fit self =
        ([msg_aggregating], Inl (RuntimeError ''vstack expects a non-empty TensorList''), self)) \<and>
   (fst (snd (fit model_fit self)) = Inr () \<longrightarrow> embeddings self \<noteq> []) \<and>
   (Dfm_init super_init DFMModel backbone layer pre_trained pooling_kernel_size pca_level s
        post_processor evaluator = Inr self \<longrightarrow>
      fit model_fit self =
        ([msg_aggregating], Inl (RuntimeError ''vstack expects a non-empty TensorList''), self))"
proof -
  have a: "fit model_fit self =
        ([msg_aggregating], Inl (RuntimeError ''vstack expects a non-empty TensorList''), self)"
    if "embeddings self = []"
    using that by (simp add: fit_def vstack_Nil)
  have b: "embeddings self = []"
    if "Dfm_init super_init DFMModel backbone layer pre_trained pooling_kernel_size pca_level s
        post_processor evaluator = Inr self"
    using that by (auto simp: Dfm_init_def split: sum.splits)
  have c: "embeddings self \<noteq> []" if "fst (snd (fit model_fit self)) = Inr ()"
  proof
    assume "embeddings self = []"
    from a [OF this] that show False by simp
  qed
  from a b c show ?thesis by blast
qed

text \<open>
  The theorem on a new instance, and on an instance with one stored matrix.
\<close>

theorem fit_empty_raises_witness:
  "embeddings demo_empty = [] \<and>
   fit demo_model_fit demo_empty =
     ([msg_aggregating], Inl (RuntimeError ''vstack expects a non-empty TensorList''),
      demo_empty) \<and>
   fst (snd (fit demo_model_fit demo_self)) = Inr () \<and>
   embeddings demo_self \<noteq> [] \<and>
   Dfm_init demo_super_init (\<lambda>bb pt ly pk nc st. Inr None) ''resnet50'' ''layer3'' True 4
       (97 / 100) ''fre'' None (Inr True) = Inr demo_empty"
proof -
  have h1: "embeddings demo_empty = []"
    by (simp add: demo_empty_def)
  have h2: "fst (snd (fit demo_model_fit demo_self)) = Inr ()"
    by (simp add: fit_def vstack_def atleast_2d_def demo_model_fit_def demo_self_def
        demo_rows_def)
  have h3: "Dfm_init demo_super_init (\<lambda>bb pt ly pk nc st. Inr None) ''resnet50'' ''layer3''
      True 4 (97 / 100) ''fre'' None (Inr True) = Inr demo_empty"
    by (simp add: Dfm_init_def demo_super_init_def demo_empty_def)
  have a: "fit demo_model_fit demo_empty =
     ([msg_aggregating], Inl (RuntimeError ''vstack expects a non-empty TensorList''),
      demo_empty)"
    using fit_empty_raises [where self = demo_empty and model_fit = demo_model_fit,
        THEN conjunct1, THEN mp, OF h1] .
  have b: "embeddings demo_self \<noteq> []"
    using fit_empty_raises [where self = demo_self and model_fit = demo_model_fit,
        THEN conjunct2, THEN conjunct1, THEN mp, OF h2] .
  have c: "fit demo_model_fit demo_empty =
     ([msg_aggregating], Inl (RuntimeError ''vstack expects a non-empty TensorList''),
      demo_empty)"
    using fit_empty_raises [where self = demo_empty and model_fit = demo_model_fit,
        THEN conjunct2, THEN conjunct2, THEN mp, OF h3] .
  from h1 a h2 b h3 show ?thesis by simp
qed

section \<open>validation_step\<close>



section \<open>Construction and the constant properties\<close>

text \<open>
  C4. For every string \<open>s\<close> given as \<^verbatim>\<open>score_type\<close>, the constructor hands \<open>s\<close>
  unchanged to \<open>DFMModel\<close> and stores it as the instance's score type; the default is
  \<^verbatim>\<open>"fre"\<close>. The constructor rejects no string itself: when it raises, the exception is
  the base initialiser's or \<open>DFMModel\<close>'s.
\<close>

theorem Dfm_init_forwards_score_type:
  "(super_init post_processor evaluator = Inr b \<and>
    DFMModel backbone pre_trained layer pooling_kernel_size pca_level s = Inr m \<longrightarrow>
      Dfm_init super_init DFMModel backbone layer pre_trained pooling_kernel_size pca_level s
          post_processor evaluator =
        Inr \<lparr>model = m, embeddings = [], score_type = s, base = b\<rparr>) \<and>
   (Dfm_init super_init DFMModel backbone layer pre_trained pooling_kernel_size pca_level s
        post_processor evaluator = Inl e \<longrightarrow>
      super_init post_processor evaluator = Inl e \<or>
      DFMModel backbone pre_trained layer pooling_kernel_size pca_level s = Inl e) \<and>
   (Dfm_init super_init DFMModel backbone layer pre_trained pooling_kernel_size pca_level s
        post_processor evaluator = Inr (self :: ('m, 'a, 's) Dfm) \<longrightarrow>
      score_type self = s \<and>
      DFMModel backbone pre_trained layer pooling_kernel_size pca_level s = Inr (model self)) \<and>
   default_score_type = ''fre''"
  by (auto simp: Dfm_init_def default_score_type_def split: sum.splits)

text \<open>
  The theorem with the default arguments, for \<^verbatim>\<open>"nll"\<close> and for a string that names
  neither score.
\<close>

theorem Dfm_init_forwards_score_type_witness:
  "demo_super_init None (Inr True) = Inr True \<and>
   demo_DFMModel default_backbone default_pre_trained default_layer
       default_pooling_kernel_size default_pca_level ''nll'' =
     Inr (''resnet50'', True, ''layer3'', 4, 97 / 100, ''nll'') \<and>
   (Dfm_init demo_super_init demo_DFMModel default_backbone default_layer default_pre_trained
       default_pooling_kernel_size default_pca_level ''nll'' None (Inr True)
      :: exn + (string \<times> bool \<times> string \<times> int \<times> real \<times> string, nat, bool) Dfm) =
     Inr \<lparr>model = (''resnet50'', True, ''layer3'', 4, 97 / 100, ''nll''), embeddings = [],
          score_type = ''nll'', base = True\<rparr> \<and>
   demo_DFMModel default_backbone default_pre_trained default_layer
       default_pooling_kernel_size default_pca_level ''neither'' =
     Inr (''resnet50'', True, ''layer3'', 4, 97 / 100, ''neither'') \<and>
   (Dfm_init demo_super_init demo_DFMModel default_backbone default_layer default_pre_trained
       default_pooling_kernel_size default_pca_level ''neither'' None (Inr True)
      :: exn + (string \<times> bool \<times> string \<times> int \<times> real \<times> string, nat, bool) Dfm) =
     Inr \<lparr>model = (''resnet50'', True, ''layer3'', 4, 97 / 100, ''neither''), embeddings = [],
          score_type = ''neither'', base = True\<rparr>"
proof -
  have h0: "demo_super_init None (Inr True) = Inr True"
    by (simp add: demo_super_init_def)
  have h1: "demo_DFMModel default_backbone default_pre_trained default_layer
       default_pooling_kernel_size default_pca_level ''nll'' =
     Inr (''resnet50'', True, ''layer3'', 4, 97 / 100, ''nll'')"
    by (simp add: demo_DFMModel_def default_backbone_def default_pre_trained_def
        default_layer_def default_pooling_kernel_size_def default_pca_level_def)
  have h2: "demo_DFMModel default_backbone default_pre_trained default_layer
       default_pooling_kernel_size default_pca_level ''neither'' =
     Inr (''resnet50'', True, ''layer3'', 4, 97 / 100, ''neither'')"
    by (simp add: demo_DFMModel_def default_backbone_def default_pre_trained_def
        default_layer_def default_pooling_kernel_size_def default_pca_level_def)
  note a = Dfm_init_forwards_score_type [where super_init = demo_super_init
      and DFMModel = demo_DFMModel and post_processor = None and evaluator = "Inr True"
      and backbone = default_backbone and layer = default_layer
      and pre_trained = default_pre_trained
      and pooling_kernel_size = default_pooling_kernel_size and pca_level = default_pca_level
      and s = "''nll''" and b = True
      and m = "(''resnet50'', True, ''layer3'', 4, 97 / 100, ''nll'')",
      THEN conjunct1, THEN mp, OF conjI [OF h0 h1]]
  note b = Dfm_init_forwards_score_type [where super_init = demo_super_init
      and DFMModel = demo_DFMModel and post_processor = None and evaluator = "Inr True"
      and backbone = default_backbone and layer = default_layer
      and pre_trained = default_pre_trained
      and pooling_kernel_size = default_pooling_kernel_size and pca_level = default_pca_level
      and s = "''neither''" and b = True
      and m = "(''resnet50'', True, ''layer3'', 4, 97 / 100, ''neither'')",
      THEN conjunct1, THEN mp, OF conjI [OF h0 h2]]
  from h0 h1 h2 a b show ?thesis by simp
qed

text \<open>
  C5. \<open>configure_optimizers\<close> returns \<^verbatim>\<open>None\<close>: no optimizer, unconditionally.
\<close>

theorem configure_optimizers_none: "configure_optimizers = None"
  by (simp add: configure_optimizers_def)

text \<open>
  C6. The learning type of every instance is \<open>ONE_CLASS\<close>.
\<close>

theorem learning_type_one_class: "learning_type self = ONE_CLASS"
  by (simp add: learning_type_def)

text \<open>
  C10. The trainer arguments of every instance are exactly the three items
  \<^verbatim>\<open>gradient_clip_val\<close> 0, \<^verbatim>\<open>max_epochs\<close> 1 and \<^verbatim>\<open>num_sanity_val_steps\<close> 0.
\<close>

theorem trainer_arguments_exact:
  "trainer_arguments self =
     [(''gradient_clip_val'', 0), (''max_epochs'', 1), (''num_sanity_val_steps'', 0)] \<and>
   map_of (trainer_arguments self) ''gradient_clip_val'' = Some 0 \<and>
   map_of (trainer_arguments self) ''max_epochs'' = Some 1 \<and>
   map_of (trainer_arguments self) ''num_sanity_val_steps'' = Some 0 \<and>
   dom (map_of (trainer_arguments self)) =
     {''gradient_clip_val'', ''max_epochs'', ''num_sanity_val_steps''}"
  by (auto simp: trainer_arguments_def)

section \<open>Determinism\<close>



end
